theory Spec2Isabelle
  imports Main "HOL-Library.Word"
begin

section \<open>C strings and the C library routines used by the resolver\<close>

text \<open>
  The resolver (\<^verbatim>\<open>src/processor/source_line_resolver.cc\<close>) works on
  0-terminated character buffers.  A \<^verbatim>\<open>char*\<close> is modelled by the list of the
  characters before the terminating 0; a character is a byte.  Addresses
  (\<^verbatim>\<open>MemAddr\<close>, \<^verbatim>\<open>u_int64_t\<close>) are 64-bit words, \<^verbatim>\<open>int\<close> is a 32-bit word read
  with \<open>sint\<close>, \<^verbatim>\<open>u_int32_t\<close> is a 32-bit word.  The C library is modelled for an
  LP64 platform (\<^verbatim>\<open>long\<close> and \<^verbatim>\<open>unsigned long\<close> have 64 bits).
\<close>

type_synonym MemAddr = "64 word"
type_synonym c_int = "32 word"
type_synonym u_int32_t = "32 word"

definition LF :: char where
  "LF = CHR 0x0A"

definition CR :: char where
  "CR = CHR 0x0D"

definition SP :: char where
  "SP = CHR 0x20"

text \<open>The contents of a buffer seen as a C string: everything before the first 0 byte.\<close>

definition c_str :: "string \<Rightarrow> string" where
  "c_str buf = takeWhile (\<lambda>c. c \<noteq> CHR 0x00) buf"

text \<open>
  \<^verbatim>\<open>strtok(s, delims)\<close>, with the saved position made explicit: the argument is the
  text from the saved position on, the result is the token (or \<open>None\<close> for \<^verbatim>\<open>NULL\<close>)
  and the new saved position.  Leading delimiters are skipped; the token ends at the
  next delimiter, which is overwritten by 0 and stepped over.
\<close>

definition strtok :: "char list \<Rightarrow> string \<Rightarrow> string option \<times> string" where
  "strtok delims s =
     (let s1 = dropWhile (\<lambda>c. c \<in> set delims) s in
      if s1 = [] then (None, [])
      else (Some (takeWhile (\<lambda>c. c \<notin> set delims) s1),
            drop 1 (dropWhile (\<lambda>c. c \<notin> set delims) s1)))"

text \<open>\<^verbatim>\<open>isspace\<close> in the C locale.\<close>

definition isspace :: "char \<Rightarrow> bool" where
  "isspace c = (c \<in> set [CHR 0x20, CHR 0x09, CHR 0x0A, CHR 0x0B, CHR 0x0C, CHR 0x0D])"

text \<open>The value of a character as a digit, as \<^verbatim>\<open>strtol\<close> reads it (letters count from 10).\<close>

definition digit_val :: "char \<Rightarrow> int option" where
  "digit_val c =
     (let n = (of_char c :: int) in
      if 48 \<le> n \<and> n \<le> 57 then Some (n - 48)
      else if 97 \<le> n \<and> n \<le> 122 then Some (n - 87)
      else if 65 \<le> n \<and> n \<le> 90 then Some (n - 55)
      else None)"

text \<open>The longest prefix of digits valid in the base, accumulated from the left.\<close>

fun strto_digits :: "int \<Rightarrow> int \<Rightarrow> string \<Rightarrow> int" where
  "strto_digits base acc [] = acc"
| "strto_digits base acc (c # cs) =
     (case digit_val c of
        None \<Rightarrow> acc
      | Some d \<Rightarrow> if d < base then strto_digits base (acc * base + d) cs else acc)"

text \<open>
  The subject sequence of the \<^verbatim>\<open>strto*\<close> family: white space is skipped, then an
  optional sign, then (in base 16) an optional \<^verbatim>\<open>0x\<close> or \<^verbatim>\<open>0X\<close>, then digits.  The
  result is the sign (\<open>True\<close> for minus) and the magnitude, not yet clamped.
\<close>

definition strto_prefix16 :: "int \<Rightarrow> string \<Rightarrow> string" where
  "strto_prefix16 base s =
     (if base = 16 \<and> (take 2 s = ''0x'' \<or> take 2 s = ''0X'') then drop 2 s else s)"

definition strto_subject :: "int \<Rightarrow> string \<Rightarrow> bool \<times> int" where
  "strto_subject base s =
     (let s1 = dropWhile isspace s in
      case s1 of
        [] \<Rightarrow> (False, 0)
      | c # cs \<Rightarrow>
          if c = CHR ''-'' then (True, strto_digits base 0 (strto_prefix16 base cs))
          else if c = CHR ''+'' then (False, strto_digits base 0 (strto_prefix16 base cs))
          else (False, strto_digits base 0 (strto_prefix16 base s1)))"

text \<open>\<^verbatim>\<open>strtoull\<close>: out of range gives \<^verbatim>\<open>ULLONG_MAX\<close>; a minus sign negates in the unsigned type.\<close>

definition strtoull :: "string \<Rightarrow> int \<Rightarrow> 64 word" where
  "strtoull s base =
     (case strto_subject base s of
        (neg, m) \<Rightarrow>
          if m > 2 ^ 64 - 1 then (- 1)
          else if neg then - (word_of_int m) else word_of_int m)"

text \<open>\<^verbatim>\<open>strtoul\<close> returns an \<^verbatim>\<open>unsigned long\<close> of 64 bits.\<close>

definition strtoul :: "string \<Rightarrow> int \<Rightarrow> 64 word" where
  "strtoul s base = strtoull s base"

text \<open>\<^verbatim>\<open>strtol\<close>: a \<^verbatim>\<open>long\<close> of 64 bits, clamped to \<^verbatim>\<open>LONG_MIN\<close> and \<^verbatim>\<open>LONG_MAX\<close>.\<close>

definition strtol :: "string \<Rightarrow> int \<Rightarrow> int" where
  "strtol s base =
     (case strto_subject base s of
        (neg, m) \<Rightarrow>
          if neg then (if m > 2 ^ 63 then - (2 ^ 63) else - m)
          else (if m > 2 ^ 63 - 1 then 2 ^ 63 - 1 else m))"

text \<open>\<^verbatim>\<open>atoi\<close> is \<^verbatim>\<open>(int) strtol(s, NULL, 10)\<close>; the conversion to \<^verbatim>\<open>int\<close> keeps the low 32 bits.\<close>

definition atoi :: "string \<Rightarrow> c_int" where
  "atoi s = word_of_int (strtol s 10)"

section \<open>Tokenize\<close>

text \<open>The delimiters of the two \<^verbatim>\<open>strtok\<close> calls: \<^verbatim>\<open>" \r\n"\<close> and \<^verbatim>\<open>"\r\n"\<close>.\<close>

definition delims_sp_cr_lf :: "char list" where
  "delims_sp_cr_lf = [SP, CR, LF]"

definition delims_cr_lf :: "char list" where
  "delims_cr_lf = [CR, LF]"

text \<open>
  The loop \<^verbatim>\<open>while (token && --remaining > 0)\<close> of \<^verbatim>\<open>Tokenize\<close>.  The state is the
  current token, \<^verbatim>\<open>remaining\<close>, the vector \<^verbatim>\<open>tokens\<close> and the saved position of
  \<^verbatim>\<open>strtok\<close>.  \<^verbatim>\<open>remaining\<close> is decremented only when \<^verbatim>\<open>token\<close> is not \<^verbatim>\<open>NULL\<close>
  (short-circuit), and \<^verbatim>\<open>strtok\<close> is called again only while \<^verbatim>\<open>remaining > 1\<close>.
\<close>

function Tokenize_loop ::
  "string option \<Rightarrow> int \<Rightarrow> string list \<Rightarrow> string \<Rightarrow> string option \<times> int \<times> string list \<times> string"
where
  "Tokenize_loop None remaining tokens saved = (None, remaining, tokens, saved)"
| "Tokenize_loop (Some t) remaining tokens saved =
     (if remaining - 1 > 0 then
        (if remaining - 1 > 1 then
           (case strtok delims_sp_cr_lf saved of
              (token', saved') \<Rightarrow> Tokenize_loop token' (remaining - 1) (tokens @ [t]) saved')
         else Tokenize_loop (Some t) (remaining - 1) (tokens @ [t]) saved)
      else (Some t, remaining - 1, tokens, saved))"
  by pat_completeness auto
termination
  by (relation "measure (\<lambda>(token, remaining, tokens, saved). nat remaining)") auto

text \<open>
  The block after the loop: \<^verbatim>\<open>if (!remaining > 0)\<close> parses as \<^verbatim>\<open>(!remaining) > 0\<close>,
  that is \<^verbatim>\<open>remaining == 0\<close>; then what \<^verbatim>\<open>strtok(NULL, "\r\n")\<close> returns, if anything,
  is added as a single token.
\<close>

definition Tokenize_final :: "int \<Rightarrow> string list \<Rightarrow> string \<Rightarrow> string list" where
  "Tokenize_final remaining tokens saved =
     (if remaining = 0 then
        (case fst (strtok delims_cr_lf saved) of
           Some t \<Rightarrow> tokens @ [t]
         | None \<Rightarrow> tokens)
      else tokens)"

text \<open>
  \<^verbatim>\<open>Tokenize(line, max_tokens, &tokens)\<close>: the result is the vector and the returned
  flag.  The flag compares the size with \<^verbatim>\<open>max_tokens\<close> converted to
  \<^verbatim>\<open>unsigned int\<close>.
\<close>

definition Tokenize :: "string \<Rightarrow> int \<Rightarrow> string list \<times> bool" where
  "Tokenize line max_tokens =
     (case strtok delims_sp_cr_lf line of
        (token, saved) \<Rightarrow>
          (case Tokenize_loop token max_tokens [] saved of
             (token1, remaining, tokens, saved1) \<Rightarrow>
               (let tokens' = Tokenize_final remaining tokens saved1
                in (tokens', int (length tokens') = max_tokens mod 2 ^ 32))))"

section \<open>Range maps\<close>

text \<open>
  Modelled from the spec: \<^verbatim>\<open>RangeMap\<close> (\<^verbatim>\<open>processor/range_map-inl.h\<close>) is not among
  the sources.  Section 4.1 of the specification: the map binds half-open intervals
  \<open>[base, base + size)\<close> to values; \<open>store\<close> succeeds and inserts if no stored interval
  overlaps the new one, and on any overlap fails and leaves the map unchanged;
  \<open>retrieve\<close> returns the value whose interval contains the address
  (\<open>base \<le> address < base + size\<close>), or nothing.
\<close>

type_synonym 'v RangeMap = "(MemAddr \<times> MemAddr \<times> 'v) list"

definition range_contains :: "MemAddr \<Rightarrow> MemAddr \<Rightarrow> MemAddr \<Rightarrow> bool" where
  "range_contains base sz a = (unat base \<le> unat a \<and> unat a < unat base + unat sz)"

definition ranges_overlap :: "MemAddr \<Rightarrow> MemAddr \<Rightarrow> MemAddr \<Rightarrow> MemAddr \<Rightarrow> bool" where
  "ranges_overlap b1 s1 b2 s2 =
     (0 < unat s1 \<and> 0 < unat s2 \<and> unat b1 < unat b2 + unat s2 \<and> unat b2 < unat b1 + unat s1)"

definition RangeMap_StoreRange ::
  "MemAddr \<Rightarrow> MemAddr \<Rightarrow> 'v \<Rightarrow> 'v RangeMap \<Rightarrow> bool \<times> 'v RangeMap" where
  "RangeMap_StoreRange base sz entry m =
     (if list_ex (\<lambda>(b, s, v). ranges_overlap base sz b s) m then (False, m)
      else (True, m @ [(base, sz, entry)]))"

definition RangeMap_RetrieveRange :: "'v RangeMap \<Rightarrow> MemAddr \<Rightarrow> 'v option" where
  "RangeMap_RetrieveRange m a =
     (case find (\<lambda>(b, s, v). range_contains b s a) m of
        None \<Rightarrow> None
      | Some (b, s, v) \<Rightarrow> Some v)"

text \<open>
  Modelled from the spec: \<^verbatim>\<open>ContainedRangeMap\<close> (\<^verbatim>\<open>processor/contained_range_map-inl.h\<close>)
  is not among the sources.  Section 4.2 of the specification: \<open>store\<close> locates the
  deepest stored interval that fully contains the new one and inserts it as its child,
  or inserts at top level if the new interval is disjoint from all top-level intervals;
  it fails, without mutation, if the new interval partially overlaps an interval.
  \<open>retrieve\<close> descends from the top level, choosing at each depth the child that
  contains the address, and returns the innermost match.
\<close>

datatype 'v ContainedRange = ContainedRange MemAddr MemAddr 'v "'v ContainedRange list"

type_synonym 'v ContainedRangeMap = "'v ContainedRange list"

definition range_within :: "MemAddr \<Rightarrow> MemAddr \<Rightarrow> MemAddr \<Rightarrow> MemAddr \<Rightarrow> bool" where
  "range_within b1 s1 b2 s2 = (unat b2 \<le> unat b1 \<and> unat b1 + unat s1 \<le> unat b2 + unat s2)"

definition ranges_disjoint :: "MemAddr \<Rightarrow> MemAddr \<Rightarrow> MemAddr \<Rightarrow> MemAddr \<Rightarrow> bool" where
  "ranges_disjoint b1 s1 b2 s2 = (unat b1 + unat s1 \<le> unat b2 \<or> unat b2 + unat s2 \<le> unat b1)"

fun contained_insert ::
  "MemAddr \<Rightarrow> MemAddr \<Rightarrow> 'v \<Rightarrow> 'v ContainedRange list \<Rightarrow> 'v ContainedRange list option" where
  "contained_insert base sz entry [] = Some [ContainedRange base sz entry []]"
| "contained_insert base sz entry (ContainedRange b s v kids # rest) =
     (if range_within base sz b s then
        (case contained_insert base sz entry kids of
           None \<Rightarrow> None
         | Some kids' \<Rightarrow> Some (ContainedRange b s v kids' # rest))
      else if ranges_disjoint base sz b s then
        (case contained_insert base sz entry rest of
           None \<Rightarrow> None
         | Some rest' \<Rightarrow> Some (ContainedRange b s v kids # rest'))
      else None)"

definition ContainedRangeMap_StoreRange ::
  "MemAddr \<Rightarrow> MemAddr \<Rightarrow> 'v \<Rightarrow> 'v ContainedRangeMap \<Rightarrow> bool \<times> 'v ContainedRangeMap" where
  "ContainedRangeMap_StoreRange base sz entry m =
     (case contained_insert base sz entry m of
        None \<Rightarrow> (False, m)
      | Some m' \<Rightarrow> (True, m'))"

fun ContainedRangeMap_RetrieveRange :: "'v ContainedRangeMap \<Rightarrow> MemAddr \<Rightarrow> 'v option" where
  "ContainedRangeMap_RetrieveRange [] a = None"
| "ContainedRangeMap_RetrieveRange (ContainedRange b s v kids # rest) a =
     (if range_contains b s a then
        (case ContainedRangeMap_RetrieveRange kids a of
           Some w \<Rightarrow> Some w
         | None \<Rightarrow> Some v)
      else ContainedRangeMap_RetrieveRange rest a)"

section \<open>The data of a module\<close>

record Line =
  Line_address :: MemAddr
  Line_size :: MemAddr
  Line_source_file_id :: c_int
  Line_line :: c_int

record Function =
  Function_name :: string
  Function_address :: MemAddr
  Function_size :: MemAddr
  Function_lines :: "Line RangeMap"

text \<open>
  Modelled from the spec: \<^verbatim>\<open>StackFrameInfo\<close> (\<^verbatim>\<open>processor/stack_frame_info.h\<close>) is not
  among the sources.  Section 3 of the specification gives its fields; a record built
  by the constructor that \<^verbatim>\<open>ParseStackInfo\<close> calls is valid, as the caller of
  \<^verbatim>\<open>LookupAddress\<close> recognises a filled record by its \<^verbatim>\<open>valid\<close> field.
\<close>

record StackFrameInfo =
  prolog_size :: u_int32_t
  epilog_size :: u_int32_t
  parameter_size :: u_int32_t
  saved_register_size :: u_int32_t
  local_size :: u_int32_t
  max_stack_size :: u_int32_t
  program_string :: string
  valid :: bool

definition new_StackFrameInfo ::
  "u_int32_t \<Rightarrow> u_int32_t \<Rightarrow> u_int32_t \<Rightarrow> u_int32_t \<Rightarrow> u_int32_t \<Rightarrow> u_int32_t \<Rightarrow> string
     \<Rightarrow> StackFrameInfo" where
  "new_StackFrameInfo set_prolog_size set_epilog_size set_parameter_size
       set_saved_register_size set_local_size set_max_stack_size set_program_string =
     \<lparr>prolog_size = set_prolog_size, epilog_size = set_epilog_size,
      parameter_size = set_parameter_size, saved_register_size = set_saved_register_size,
      local_size = set_local_size, max_stack_size = set_max_stack_size,
      program_string = set_program_string, valid = True\<rparr>"

text \<open>
  Modelled from the spec: \<^verbatim>\<open>StackFrame\<close> (\<^verbatim>\<open>google/stack_frame.h\<close>) is not among the
  sources.  The fields are those the resolver reads and writes; the field
  \<^verbatim>\<open>module_name\<close> is called \<open>frame_module_name\<close> here.
\<close>

record StackFrame =
  instruction :: MemAddr
  module_base :: MemAddr
  frame_module_name :: string
  function_name :: string
  source_file_name :: string
  source_line :: c_int

text \<open>The enumeration \<^verbatim>\<open>StackInfoTypes\<close>: indices of the array \<^verbatim>\<open>stack_info_\<close>.\<close>

definition STACK_INFO_FPO :: nat where
  "STACK_INFO_FPO = 0"

definition STACK_INFO_TRAP :: nat where
  "STACK_INFO_TRAP = 1"

definition STACK_INFO_TSS :: nat where
  "STACK_INFO_TSS = 2"

definition STACK_INFO_STANDARD :: nat where
  "STACK_INFO_STANDARD = 3"

definition STACK_INFO_FRAME_DATA :: nat where
  "STACK_INFO_FRAME_DATA = 4"

definition STACK_INFO_LAST :: nat where
  "STACK_INFO_LAST = 5"

text \<open>
  A \<^verbatim>\<open>Module\<close>.  The \<^verbatim>\<open>Function\<close> objects allocated by \<^verbatim>\<open>new\<close> live in an explicit
  store, \<open>function_objects\<close>; a pointer to a \<^verbatim>\<open>Function\<close> is its index there.  The
  map \<^verbatim>\<open>functions_\<close> holds such pointers, and so does \<^verbatim>\<open>cur_func\<close> during the load:
  both name the same object.  The array \<^verbatim>\<open>stack_info_\<close> is a function of its index.
  The members \<^verbatim>\<open>name_\<close>, \<^verbatim>\<open>files_\<close>, \<^verbatim>\<open>functions_\<close> and \<^verbatim>\<open>stack_info_\<close> are the fields
  \<open>Module_name\<close>, \<open>Module_files\<close>, \<open>Module_functions\<close> and \<open>Module_stack_info\<close>.
\<close>

record Module =
  Module_name :: string
  Module_files :: "c_int \<rightharpoonup> string"
  Module_functions :: "nat RangeMap"
  function_objects :: "Function list"
  Module_stack_info :: "nat \<Rightarrow> StackFrameInfo ContainedRangeMap"

definition new_Module :: "string \<Rightarrow> Module" where
  "new_Module name =
     \<lparr>Module_name = name, Module_files = Map.empty, Module_functions = [], function_objects = [],
      Module_stack_info = (\<lambda>i. [])\<rparr>"

definition deref :: "Function list \<Rightarrow> nat \<Rightarrow> Function option" where
  "deref objs p = (if p < length objs then Some (objs ! p) else None)"

section \<open>Parsing the records of a symbol file\<close>

text \<open>
  \<^verbatim>\<open>ParseFile\<close>: \<^verbatim>\<open>FILE <id> <filename>\<close>.  The prefix is skipped, the rest is split
  into two tokens.  \<^verbatim>\<open>files_.insert\<close> of a hash map leaves an existing key as it is.
\<close>

definition ParseFile :: "string \<Rightarrow> Module \<Rightarrow> Module" where
  "ParseFile file_line m =
     (case Tokenize (drop 5 file_line) 2 of
        (tokens, ok) \<Rightarrow>
          if ok then
            (let index = atoi (tokens ! 0) in
             if sint index < 0 then m
             else
               (let filename = tokens ! 1 in
                case Module_files m index of
                  Some existing \<Rightarrow> m
                | None \<Rightarrow> m\<lparr>Module_files := (Module_files m)(index \<mapsto> filename)\<rparr>))
          else m)"

text \<open>\<^verbatim>\<open>ParseFunction\<close>: \<^verbatim>\<open>FUNC <address> <size> <name>\<close>; \<open>None\<close> is \<^verbatim>\<open>NULL\<close>.\<close>

definition ParseFunction :: "string \<Rightarrow> Function option" where
  "ParseFunction function_line =
     (case Tokenize (drop 5 function_line) 3 of
        (tokens, ok) \<Rightarrow>
          if ok then
            Some \<lparr>Function_name = tokens ! 2,
                  Function_address = strtoull (tokens ! 0) 16,
                  Function_size = strtoull (tokens ! 1) 16,
                  Function_lines = []\<rparr>
          else None)"

text \<open>\<^verbatim>\<open>ParseLine\<close>: \<^verbatim>\<open><address> <size> <line number> <source file id>\<close>.\<close>

definition ParseLine :: "string \<Rightarrow> Line option" where
  "ParseLine line_line =
     (case Tokenize line_line 4 of
        (tokens, ok) \<Rightarrow>
          if ok then
            (let address = strtoull (tokens ! 0) 16;
                 sz = strtoull (tokens ! 1) 16;
                 line_number = atoi (tokens ! 2);
                 source_file = atoi (tokens ! 3)
             in if sint line_number \<le> 0 then None
                else Some \<lparr>Line_address = address, Line_size = sz,
                           Line_source_file_id = source_file, Line_line = line_number\<rparr>)
          else None)"

text \<open>
  \<^verbatim>\<open>ParseStackInfo\<close>: \<^verbatim>\<open>STACK WIN <type> <rva> <code_size> ... <program_string>\<close>.
  The result of \<^verbatim>\<open>StoreRange\<close> is not looked at.  The 32-bit fields keep the low
  32 bits of what \<^verbatim>\<open>strtoul\<close> returns, and \<^verbatim>\<open>type\<close> those of \<^verbatim>\<open>strtol\<close>.
\<close>

definition ParseStackInfo :: "string \<Rightarrow> Module \<Rightarrow> bool \<times> Module" where
  "ParseStackInfo stack_info_line m =
     (case Tokenize (drop 6 stack_info_line) 11 of
        (tokens, ok) \<Rightarrow>
          if ok then
            (let platform = tokens ! 0 in
             if platform = ''WIN'' then
               (let type = (word_of_int (strtol (tokens ! 1) 16) :: c_int) in
                if sint type < 0 \<or> sint type > int STACK_INFO_LAST - 1 then (False, m)
                else
                  (let rva = strtoull (tokens ! 2) 16;
                       code_size = strtoull (tokens ! 3) 16;
                       info = new_StackFrameInfo
                                (ucast (strtoul (tokens ! 4) 16))
                                (ucast (strtoul (tokens ! 5) 16))
                                (ucast (strtoul (tokens ! 6) 16))
                                (ucast (strtoul (tokens ! 7) 16))
                                (ucast (strtoul (tokens ! 8) 16))
                                (ucast (strtoul (tokens ! 9) 16))
                                (tokens ! 10);
                       i = nat (sint type)
                   in (True,
                       m\<lparr>Module_stack_info :=
                           (Module_stack_info m)
                             (i := snd (ContainedRangeMap_StoreRange rva code_size info
                                          (Module_stack_info m i)))\<rparr>)))
             else (False, m))
          else (False, m))"

section \<open>Loading a symbol file\<close>

text \<open>
  \<^verbatim>\<open>fgets(buffer, n, f)\<close> on the rest of the stream: at most \<open>n - 1\<close> characters are
  read, and reading stops after a newline.  The result is the buffer and the rest of
  the stream.
\<close>

fun fgets :: "nat \<Rightarrow> string \<Rightarrow> string \<times> string" where
  "fgets n [] = ([], [])"
| "fgets n (c # cs) =
     (if n \<le> 1 then ([], c # cs)
      else if c = LF then ([c], cs)
      else (case fgets (n - 1) cs of (buf, rest) \<Rightarrow> (c # buf, rest)))"

text \<open>
  The buffers that the successive calls \<^verbatim>\<open>fgets(buffer, sizeof(buffer), f)\<close> of the
  loop in \<^verbatim>\<open>LoadMap\<close> see, until \<^verbatim>\<open>fgets\<close> returns \<^verbatim>\<open>NULL\<close> at the end of the stream.
\<close>

function fgets_lines :: "string \<Rightarrow> string list" where
  "fgets_lines [] = []"
| "fgets_lines (c # cs) =
     (case fgets 1024 (c # cs) of (buf, rest) \<Rightarrow> buf # fgets_lines rest)"
  by pat_completeness auto
termination
proof (relation "measure length")
  show "wf (measure length)"
    by simp
next
  fix c :: char and cs buf rest
  assume a: "(buf, rest) = fgets 1024 (c # cs)"
  have no_longer: "length (snd (fgets n s)) \<le> length s" for n s
    by (induction n s rule: fgets.induct) (auto split: prod.splits)
  have "fgets 1024 (c # cs) =
          (if c = LF then ([c], cs) else (c # fst (fgets 1023 cs), snd (fgets 1023 cs)))"
    by (simp split: prod.splits)
  with a have "rest = (if c = LF then cs else snd (fgets 1023 cs))"
    by (metis snd_conv)
  with no_longer [of 1023 cs] show "(rest, c # cs) \<in> measure length"
    by (simp split: if_splits)
qed

text \<open>
  One turn of the loop of \<^verbatim>\<open>LoadMap\<close> on the buffer just read.  The state is
  \<^verbatim>\<open>cur_func\<close> and the module; \<open>None\<close> is \<^verbatim>\<open>return false\<close>.  A \<^verbatim>\<open>FUNC\<close> record
  allocates a new \<^verbatim>\<open>Function\<close>, makes it the current function and stores a pointer to
  it in \<^verbatim>\<open>functions_\<close>; a line record is stored in the lines of the object that
  \<^verbatim>\<open>cur_func\<close> points to.  Neither result of \<^verbatim>\<open>StoreRange\<close> is looked at.
\<close>

definition LoadMap_line ::
  "string \<Rightarrow> nat option \<Rightarrow> Module \<Rightarrow> (nat option \<times> Module) option" where
  "LoadMap_line buffer cur_func m =
     (if take 5 buffer = ''FILE '' then Some (cur_func, ParseFile buffer m)
      else if take 6 buffer = ''STACK '' then
        (case ParseStackInfo buffer m of
           (ok, m') \<Rightarrow> if ok then Some (cur_func, m') else None)
      else if take 5 buffer = ''FUNC '' then
        (case ParseFunction buffer of
           None \<Rightarrow> None
         | Some f \<Rightarrow>
             (let p = length (function_objects m) in
              Some (Some p,
                    m\<lparr>function_objects := function_objects m @ [f],
                      Module_functions :=
                        snd (RangeMap_StoreRange (Function_address f) (Function_size f) p
                               (Module_functions m))\<rparr>)))
      else
        (case cur_func of
           None \<Rightarrow> None
         | Some p \<Rightarrow>
             (case ParseLine buffer of
                None \<Rightarrow> None
              | Some line \<Rightarrow>
                  (let f = function_objects m ! p in
                   Some (cur_func,
                         m\<lparr>function_objects :=
                             (function_objects m)
                               [p := f\<lparr>Function_lines :=
                                         snd (RangeMap_StoreRange (Line_address line)
                                                (Line_size line) line (Function_lines f))\<rparr>]\<rparr>)))))"

fun LoadMap_loop ::
  "string list \<Rightarrow> nat option \<Rightarrow> Module \<Rightarrow> (nat option \<times> Module) option" where
  "LoadMap_loop [] cur_func m = Some (cur_func, m)"
| "LoadMap_loop (buffer # buffers) cur_func m =
     (case LoadMap_line buffer cur_func m of
        None \<Rightarrow> None
      | Some (cur_func', m') \<Rightarrow> LoadMap_loop buffers cur_func' m')"

text \<open>
  The file system and the open streams of the process: \<^verbatim>\<open>fopen\<close> of a missing file
  gives \<^verbatim>\<open>NULL\<close>, otherwise a stream is open until \<^verbatim>\<open>fclose\<close>.
\<close>

record io_state =
  io_files :: "string \<rightharpoonup> string"
  io_open_streams :: nat

definition fopen :: "io_state \<Rightarrow> string \<Rightarrow> string option \<times> io_state" where
  "fopen io path =
     (case io_files io path of
        None \<Rightarrow> (None, io)
      | Some content \<Rightarrow> (Some content, io\<lparr>io_open_streams := io_open_streams io + 1\<rparr>))"

definition fclose :: "io_state \<Rightarrow> io_state" where
  "fclose io = io\<lparr>io_open_streams := io_open_streams io - 1\<rparr>"

text \<open>
  \<^verbatim>\<open>Module::LoadMap\<close>.  The result is the loaded module (\<open>None\<close> when the function
  returns false) and the state of the streams.  Each buffer is a C string.  Only the
  path that leaves the loop at the end of the file calls \<^verbatim>\<open>fclose\<close>.
\<close>

definition LoadMap :: "io_state \<Rightarrow> string \<Rightarrow> Module \<Rightarrow> Module option \<times> io_state" where
  "LoadMap io map_file m =
     (case fopen io map_file of
        (None, io1) \<Rightarrow> (None, io1)
      | (Some f, io1) \<Rightarrow>
          (case LoadMap_loop (map c_str (fgets_lines f)) None m of
             None \<Rightarrow> (None, io1)
           | Some (cur_func, m') \<Rightarrow> (Some m', fclose io1)))"

section \<open>Looking an address up\<close>

definition LookupAddress ::
  "Module \<Rightarrow> MemAddr \<Rightarrow> StackFrame \<Rightarrow> StackFrameInfo option
     \<Rightarrow> StackFrame \<times> StackFrameInfo option" where
  "LookupAddress m address frame frame_info =
     (let frame_info' =
        (case frame_info of
           None \<Rightarrow> None
         | Some fi \<Rightarrow>
             (case ContainedRangeMap_RetrieveRange (Module_stack_info m STACK_INFO_FRAME_DATA) address of
                Some v \<Rightarrow> Some v
              | None \<Rightarrow>
                  (case ContainedRangeMap_RetrieveRange (Module_stack_info m STACK_INFO_FPO) address of
                     Some v \<Rightarrow> Some v
                   | None \<Rightarrow>
                       (case ContainedRangeMap_RetrieveRange (Module_stack_info m STACK_INFO_STANDARD)
                               address of
                          Some v \<Rightarrow> Some v
                        | None \<Rightarrow> Some fi))))
      in case RangeMap_RetrieveRange (Module_functions m) address of
           None \<Rightarrow> (frame, frame_info')
         | Some func \<Rightarrow>
             (case deref (function_objects m) func of
                None \<Rightarrow> (frame, frame_info')
              | Some f \<Rightarrow>
                  (let frame1 = frame\<lparr>function_name := Function_name f\<rparr> in
                   case RangeMap_RetrieveRange (Function_lines f) address of
                     None \<Rightarrow> (frame1, frame_info')
                   | Some line \<Rightarrow>
                       (let frame2 =
                          (case Module_files m (Line_source_file_id line) of
                             Some filename \<Rightarrow> frame1\<lparr>source_file_name := filename\<rparr>
                           | None \<Rightarrow> frame1)
                        in (frame2\<lparr>source_line := Line_line line\<rparr>, frame_info')))))"

section \<open>The resolver\<close>

type_synonym ModuleMap = "string \<rightharpoonup> Module"

definition LoadModule ::
  "io_state \<Rightarrow> ModuleMap \<Rightarrow> string \<Rightarrow> string \<Rightarrow> bool \<times> ModuleMap \<times> io_state" where
  "LoadModule io modules module_nm map_file =
     (case modules module_nm of
        Some existing \<Rightarrow> (False, modules, io)
      | None \<Rightarrow>
          (case LoadMap io map_file (new_Module module_nm) of
             (None, io') \<Rightarrow> (False, modules, io')
           | (Some module, io') \<Rightarrow> (True, modules(module_nm \<mapsto> module), io')))"

definition HasModule :: "ModuleMap \<Rightarrow> string \<Rightarrow> bool" where
  "HasModule modules module_nm = (modules module_nm \<noteq> None)"

definition FillSourceLineInfo ::
  "ModuleMap \<Rightarrow> StackFrame \<Rightarrow> StackFrameInfo option \<Rightarrow> StackFrame \<times> StackFrameInfo option" where
  "FillSourceLineInfo modules frame frame_info =
     (case modules (frame_module_name frame) of
        None \<Rightarrow> (frame, frame_info)
      | Some module \<Rightarrow>
          LookupAddress module (instruction frame - module_base frame) frame frame_info)"

section \<open>Example symbol files\<close>

text \<open>
  The symbol file of the specification's example: a \<^verbatim>\<open>FILE\<close> record, a \<^verbatim>\<open>FUNC\<close>
  record, a line record and a \<^verbatim>\<open>STACK WIN\<close> record, one per line.
\<close>

definition example_symbol_file :: string where
  "example_symbol_file =
     ''FILE 0 a.c'' @ [LF] @ ''FUNC 1000 10 foo'' @ [LF] @ ''1000 5 42 0'' @ [LF]
       @ ''STACK WIN 4 1000 10 0 0 0 0 0 0 prog'' @ [LF]"

text \<open>The module that loading the example builds.\<close>

definition example_module :: "string \<Rightarrow> Module" where
  "example_module name =
     \<lparr>Module_name = name,
      Module_files = [0 \<mapsto> ''a.c''],
      Module_functions = [(0x1000, 0x10, 0)],
      function_objects =
        [\<lparr>Function_name = ''foo'', Function_address = 0x1000, Function_size = 0x10,
          Function_lines =
            [(0x1000, 5, \<lparr>Line_address = 0x1000, Line_size = 5,
                           Line_source_file_id = 0, Line_line = 42\<rparr>)]\<rparr>],
      Module_stack_info =
        (\<lambda>i. [])(4 := [ContainedRange 0x1000 0x10 (new_StackFrameInfo 0 0 0 0 0 0 ''prog'') []])\<rparr>"

text \<open>A symbol file whose only record is a line record: there is no current function.\<close>

definition orphan_line_file :: string where
  "orphan_line_file = ''1000 5 42 0'' @ [LF]"

text \<open>A file system that holds one file.\<close>

definition single_file_io :: "string \<Rightarrow> string \<Rightarrow> io_state" where
  "single_file_io path content = \<lparr>io_files = [path \<mapsto> content], io_open_streams = 0\<rparr>"

section \<open>Statements of the specification\<close>

text \<open>
  The probe of the specification's lookup, step 1: the stack-info maps of the given
  types are asked in the given order, and the first result that is not empty is taken.
\<close>

fun first_non_empty :: "'a option list \<Rightarrow> 'a option" where
  "first_non_empty [] = None"
| "first_non_empty (None # rs) = first_non_empty rs"
| "first_non_empty (Some v # rs) = Some v"

definition probe_in_order :: "Module \<Rightarrow> nat list \<Rightarrow> MemAddr \<Rightarrow> StackFrameInfo option" where
  "probe_in_order m types address =
     first_non_empty
       (map (\<lambda>i. ContainedRangeMap_RetrieveRange (Module_stack_info m i) address) types)"

section \<open>Further example data\<close>

text \<open>A frame and a frame-info record as a caller hands them in: nothing is filled in.\<close>

definition blank_frame :: "string \<Rightarrow> MemAddr \<Rightarrow> MemAddr \<Rightarrow> StackFrame" where
  "blank_frame name base instr =
     \<lparr>instruction = instr, module_base = base, frame_module_name = name,
      function_name = [], source_file_name = [], source_line = 0\<rparr>"

definition blank_frame_info :: StackFrameInfo where
  "blank_frame_info =
     \<lparr>prolog_size = 0, epilog_size = 0, parameter_size = 0, saved_register_size = 0,
      local_size = 0, max_stack_size = 0, program_string = [], valid = False\<rparr>"

text \<open>
  A module without functions whose stack-info maps of the types FPO and standard both
  cover the address \<^verbatim>\<open>0x1000\<close>.
\<close>

definition stack_only_module :: Module where
  "stack_only_module =
     (new_Module ''s'')
       \<lparr>Module_stack_info :=
          (\<lambda>i. [])
            (STACK_INFO_FPO :=
               [ContainedRange 0x1000 0x10 (new_StackFrameInfo 1 0 0 0 0 0 ''fpo'') []],
             STACK_INFO_STANDARD :=
               [ContainedRange 0x1000 0x10 (new_StackFrameInfo 2 0 0 0 0 0 ''standard'') []])\<rparr>"

text \<open>The example module with an empty file table: the file id of its line is unknown.\<close>

definition fileless_module :: Module where
  "fileless_module = (example_module ''m'')\<lparr>Module_files := Map.empty\<rparr>"

text \<open>A module whose only function occupies the last 16 bytes of the address space.\<close>

definition high_module :: Module where
  "high_module =
     (new_Module ''h'')
       \<lparr>Module_functions := [(0xFFFFFFFFFFFFFFF0, 0x10, 0)],
        function_objects :=
          [\<lparr>Function_name = ''top'', Function_address = 0xFFFFFFFFFFFFFFF0,
            Function_size = 0x10, Function_lines = []\<rparr>]\<rparr>"

section \<open>Kinds of records and their errors\<close>









section \<open>The tokenizing rule of the specification\<close>








section \<open>Evaluation of the model on concrete input\<close>

lemmas tokenize_defs =
  Tokenize_def Tokenize_final_def strtok_def delims_sp_cr_lf_def delims_cr_lf_def SP_def CR_def LF_def

lemmas number_defs =
  strtoull_def strtoul_def strtol_def atoi_def strto_subject_def strto_prefix16_def
  isspace_def digit_val_def

lemmas parse_defs =
  LoadMap_line_def ParseFile_def ParseFunction_def ParseLine_def ParseStackInfo_def
  STACK_INFO_LAST_def ContainedRangeMap_StoreRange_def RangeMap_StoreRange_def

lemma example_loop:
  "LoadMap_loop (map c_str (fgets_lines example_symbol_file)) None (new_Module name) =
     Some (Some 0, example_module name)"
  by (simp add: example_symbol_file_def c_str_def parse_defs tokenize_defs number_defs
      new_Module_def example_module_def)

lemma example_LoadMap:
  "LoadMap (single_file_io map_file example_symbol_file) map_file (new_Module name) =
     (Some (example_module name), single_file_io map_file example_symbol_file)"
  by (simp add: LoadMap_def fopen_def fclose_def single_file_io_def example_loop)

lemma example_LookupAddress:
  "LookupAddress (example_module name) 0x1000 frame (Some fi) =
     (frame\<lparr>function_name := ''foo'', source_file_name := ''a.c'', source_line := 42\<rparr>,
      Some (new_StackFrameInfo 0 0 0 0 0 0 ''prog''))"
  by (simp add: LookupAddress_def example_module_def STACK_INFO_FRAME_DATA_def
      range_contains_def RangeMap_RetrieveRange_def deref_def)

lemma orphan_line_loop:
  "LoadMap_loop (map c_str (fgets_lines orphan_line_file)) None m = None"
  by (simp add: orphan_line_file_def c_str_def LoadMap_line_def LF_def)

section \<open>Properties\<close>

text \<open>
  C1.  For the symbol file made of the records \<^verbatim>\<open>FILE 0 a.c\<close>, \<^verbatim>\<open>FUNC 1000 10 foo\<close>,
  \<^verbatim>\<open>1000 5 42 0\<close> and \<^verbatim>\<open>STACK WIN 4 1000 10 0 0 0 0 0 0 prog\<close>, \<^verbatim>\<open>LoadModule\<close>
  succeeds and registers the module.  Looking the module-relative address \<^verbatim>\<open>0x1000\<close>
  up with a frame-info record requested, directly or through \<^verbatim>\<open>FillSourceLineInfo\<close>
  on a frame of that module whose instruction lies \<^verbatim>\<open>0x1000\<close> above the module base,
  sets the function name to \<^verbatim>\<open>foo\<close>, the source file name to \<^verbatim>\<open>a.c\<close> and the source
  line to 42, and fills a valid frame-info record whose program string is \<^verbatim>\<open>prog\<close>.
\<close>

theorem example_load_then_lookup:
  "(case LoadModule (single_file_io map_file example_symbol_file) Map.empty module_nm map_file of
      (ok, modules, io') \<Rightarrow>
        ok \<and> HasModule modules module_nm \<and>
        (case modules module_nm of
           None \<Rightarrow> False
         | Some m \<Rightarrow>
             (case LookupAddress m 0x1000 frame (Some fi) of
                (frame', None) \<Rightarrow> False
              | (frame', Some fi') \<Rightarrow>
                  function_name frame' = ''foo'' \<and> source_file_name frame' = ''a.c'' \<and>
                  source_line frame' = 42 \<and> valid fi' \<and> program_string fi' = ''prog'' \<and>
                  FillSourceLineInfo modules
                    (frame\<lparr>frame_module_name := module_nm, module_base := base,
                           instruction := base + 0x1000\<rparr>) (Some fi) =
                    (frame\<lparr>frame_module_name := module_nm, module_base := base,
                           instruction := base + 0x1000, function_name := ''foo'',
                           source_file_name := ''a.c'', source_line := 42\<rparr>,
                     Some fi'))))"
  by (simp add: LoadModule_def example_LoadMap HasModule_def example_LookupAddress
      FillSourceLineInfo_def new_StackFrameInfo_def)

text \<open>
  C9.  A load that is aborted by a structural error leaves its stream open: for the
  symbol file whose only record is the line record \<^verbatim>\<open>1000 5 42 0\<close>, \<^verbatim>\<open>LoadMap\<close>
  returns false at the test of \<^verbatim>\<open>cur_func\<close>, and the stream that \<^verbatim>\<open>fopen\<close> opened
  is still open when \<^verbatim>\<open>LoadMap\<close> and \<^verbatim>\<open>LoadModule\<close> return.
\<close>

theorem aborted_load_leaves_stream_open:
  "LoadMap (single_file_io map_file orphan_line_file) map_file (new_Module module_nm) =
     (None, (single_file_io map_file orphan_line_file)\<lparr>io_open_streams := 1\<rparr>) \<and>
   LoadModule (single_file_io map_file orphan_line_file) modules module_nm map_file =
     (case modules module_nm of
        Some existing \<Rightarrow> (False, modules, single_file_io map_file orphan_line_file)
      | None \<Rightarrow>
          (False, modules, (single_file_io map_file orphan_line_file)\<lparr>io_open_streams := 1\<rparr>))"
  by (simp add: LoadModule_def LoadMap_def fopen_def single_file_io_def orphan_line_loop
      split: option.splits)

text \<open>
  C2.  \<^verbatim>\<open>LoadModule\<close>, for every state of the resolver and every module name.  If the
  name is registered, the call returns false and the registry is unchanged, so every
  query of the registered data answers as before.  If the name is not registered and
  \<^verbatim>\<open>LoadMap\<close> fails, the call returns false, the registry is unchanged and the name is
  still not registered.  The call returns true exactly when the name was not
  registered and \<^verbatim>\<open>LoadMap\<close> succeeded; then the name is bound to the loaded module
  and no other name changes.  A name is registered afterwards only if it was before or
  the call returned true.
\<close>

theorem LoadModule_registers_only_on_success:
  "(case LoadModule io modules module_nm map_file of
      (ok, modules', io') \<Rightarrow>
        (HasModule modules module_nm \<longrightarrow>
           \<not> ok \<and> modules' = modules \<and>
           FillSourceLineInfo modules' frame frame_info =
             FillSourceLineInfo modules frame frame_info) \<and>
        (\<not> HasModule modules module_nm \<and>
         fst (LoadMap io map_file (new_Module module_nm)) = None \<longrightarrow>
           \<not> ok \<and> modules' = modules \<and> \<not> HasModule modules' module_nm) \<and>
        (ok \<longleftrightarrow>
           \<not> HasModule modules module_nm \<and>
           fst (LoadMap io map_file (new_Module module_nm)) \<noteq> None) \<and>
        (ok \<longrightarrow>
           modules' module_nm = fst (LoadMap io map_file (new_Module module_nm)) \<and>
           (\<forall>other. other \<noteq> module_nm \<longrightarrow> modules' other = modules other)) \<and>
        (HasModule modules' other_nm \<longleftrightarrow> HasModule modules other_nm \<or> (ok \<and> other_nm = module_nm)))"
  by (auto simp: LoadModule_def HasModule_def split: option.splits prod.splits)

theorem LoadModule_registers_only_on_success_witness:
  "HasModule [''m'' \<mapsto> example_module ''m''] ''m'' \<and>
   LoadModule (single_file_io ''a.sym'' example_symbol_file) [''m'' \<mapsto> example_module ''m'']
       ''m'' ''a.sym'' =
     (False, [''m'' \<mapsto> example_module ''m''], single_file_io ''a.sym'' example_symbol_file) \<and>
   \<not> HasModule Map.empty ''m'' \<and>
   fst (LoadMap (single_file_io ''b.sym'' orphan_line_file) ''b.sym'' (new_Module ''m'')) = None \<and>
   fst (LoadModule (single_file_io ''b.sym'' orphan_line_file) Map.empty ''m'' ''b.sym'') = False \<and>
   \<not> HasModule
       (fst (snd (LoadModule (single_file_io ''b.sym'' orphan_line_file) Map.empty ''m'' ''b.sym'')))
       ''m'' \<and>
   fst (LoadModule (single_file_io ''a.sym'' example_symbol_file) Map.empty ''m'' ''a.sym'') = True \<and>
   fst (snd (LoadModule (single_file_io ''a.sym'' example_symbol_file) Map.empty ''m'' ''a.sym''))
       ''m'' = Some (example_module ''m'')"
proof -
  have registered: "HasModule [''m'' \<mapsto> example_module ''m''] ''m''"
    by (simp add: HasModule_def)
  have fresh: "\<not> HasModule Map.empty ''m''"
    by (simp add: HasModule_def)
  have fails: "fst (LoadMap (single_file_io ''b.sym'' orphan_line_file) ''b.sym''
                 (new_Module ''m'')) = None"
    by (simp add: LoadMap_def fopen_def single_file_io_def orphan_line_loop)
  have succeeds: "fst (LoadMap (single_file_io ''a.sym'' example_symbol_file) ''a.sym''
                    (new_Module ''m'')) = Some (example_module ''m'')"
    by (simp add: example_LoadMap)
  show ?thesis
    using registered fresh fails succeeds
      LoadModule_registers_only_on_success
        [where io = "single_file_io ''a.sym'' example_symbol_file"
           and modules = "[''m'' \<mapsto> example_module ''m'']" and module_nm = "''m''"
           and map_file = "''a.sym''" and frame = "blank_frame ''m'' 0 0"
           and frame_info = None and other_nm = "''m''"]
      LoadModule_registers_only_on_success
        [where io = "single_file_io ''b.sym'' orphan_line_file"
           and modules = Map.empty and module_nm = "''m''"
           and map_file = "''b.sym''" and frame = "blank_frame ''m'' 0 0"
           and frame_info = None and other_nm = "''m''"]
      LoadModule_registers_only_on_success
        [where io = "single_file_io ''a.sym'' example_symbol_file"
           and modules = Map.empty and module_nm = "''m''"
           and map_file = "''a.sym''" and frame = "blank_frame ''m'' 0 0"
           and frame_info = None and other_nm = "''m''"]
    by (auto simp: LoadModule_def split: prod.splits option.splits)
qed

text \<open>
  C5.  A lookup with a frame-info record requested fills the record from the first of
  the stack-info maps of the types frame data, FPO and standard, asked in this order,
  that has an entry for the address; if none has, the record is left as it was.  This
  does not depend on the function map: when the address lies in no function, the frame
  is returned untouched and the record is filled all the same.
\<close>

theorem LookupAddress_probes_stack_info_in_order:
  "snd (LookupAddress m address frame (Some fi)) =
     Some (case probe_in_order m [STACK_INFO_FRAME_DATA, STACK_INFO_FPO, STACK_INFO_STANDARD]
                  address of
             Some v \<Rightarrow> v
           | None \<Rightarrow> fi) \<and>
   (RangeMap_RetrieveRange (Module_functions m) address = None \<longrightarrow>
      LookupAddress m address frame (Some fi) =
        (frame,
         Some (case probe_in_order m [STACK_INFO_FRAME_DATA, STACK_INFO_FPO, STACK_INFO_STANDARD]
                      address of
                 Some v \<Rightarrow> v
               | None \<Rightarrow> fi)))"
  by (simp add: LookupAddress_def probe_in_order_def Let_def split: option.splits)

theorem LookupAddress_probes_stack_info_in_order_witness:
  "RangeMap_RetrieveRange (Module_functions stack_only_module) 0x1000 = None \<and>
   LookupAddress stack_only_module 0x1000 (blank_frame ''s'' 0 0x1000) (Some blank_frame_info) =
     (blank_frame ''s'' 0 0x1000, Some (new_StackFrameInfo 1 0 0 0 0 0 ''fpo''))"
proof -
  have no_function: "RangeMap_RetrieveRange (Module_functions stack_only_module) 0x1000 = None"
    by (simp add: stack_only_module_def new_Module_def RangeMap_RetrieveRange_def)
  have probe:
    "probe_in_order stack_only_module
       [STACK_INFO_FRAME_DATA, STACK_INFO_FPO, STACK_INFO_STANDARD] 0x1000 =
     Some (new_StackFrameInfo 1 0 0 0 0 0 ''fpo'')"
    by (simp add: probe_in_order_def stack_only_module_def new_Module_def range_contains_def
        STACK_INFO_FRAME_DATA_def STACK_INFO_FPO_def STACK_INFO_STANDARD_def)
  show ?thesis
    using no_function probe
      LookupAddress_probes_stack_info_in_order
        [where m = stack_only_module and address = "0x1000"
           and frame = "blank_frame ''s'' 0 0x1000" and fi = blank_frame_info]
    by simp
qed

text \<open>
  C6.  When a lookup resolves a function and a line whose source file id is not in the
  file table of the module, the frame gets the name of the function and the number of
  the line, and nothing else in it changes: the source file name is left as it was.
\<close>

theorem LookupAddress_unknown_file_id:
  assumes "RangeMap_RetrieveRange (Module_functions m) address = Some func"
    and "deref (function_objects m) func = Some f"
    and "RangeMap_RetrieveRange (Function_lines f) address = Some line"
    and "Module_files m (Line_source_file_id line) = None"
  shows "fst (LookupAddress m address frame frame_info) =
           frame\<lparr>function_name := Function_name f, source_line := Line_line line\<rparr> \<and>
         source_line (fst (LookupAddress m address frame frame_info)) = Line_line line \<and>
         source_file_name (fst (LookupAddress m address frame frame_info)) =
           source_file_name frame"
  using assms by (simp add: LookupAddress_def Let_def)

theorem LookupAddress_unknown_file_id_witness:
  "RangeMap_RetrieveRange (Module_functions fileless_module) 0x1000 = Some 0 \<and>
   deref (function_objects fileless_module) 0 = Some (function_objects fileless_module ! 0) \<and>
   RangeMap_RetrieveRange (Function_lines (function_objects fileless_module ! 0)) 0x1000 =
     Some \<lparr>Line_address = 0x1000, Line_size = 5, Line_source_file_id = 0, Line_line = 42\<rparr> \<and>
   Module_files fileless_module 0 = None \<and>
   fst (LookupAddress fileless_module 0x1000 (blank_frame ''m'' 0 0x1000) None) =
     \<lparr>instruction = 0x1000, module_base = 0, frame_module_name = ''m'',
      function_name = ''foo'', source_file_name = [], source_line = 42\<rparr>"
proof -
  have func: "RangeMap_RetrieveRange (Module_functions fileless_module) 0x1000 = Some 0"
    by (simp add: fileless_module_def example_module_def RangeMap_RetrieveRange_def
        range_contains_def)
  have obj: "deref (function_objects fileless_module) 0 =
               Some (function_objects fileless_module ! 0)"
    by (simp add: fileless_module_def example_module_def deref_def)
  have line: "RangeMap_RetrieveRange (Function_lines (function_objects fileless_module ! 0))
                0x1000 =
              Some \<lparr>Line_address = 0x1000, Line_size = 5, Line_source_file_id = 0,
                    Line_line = 42\<rparr>"
    by (simp add: fileless_module_def example_module_def RangeMap_RetrieveRange_def
        range_contains_def)
  have no_file: "Module_files fileless_module
                (Line_source_file_id
                   \<lparr>Line_address = 0x1000, Line_size = 5, Line_source_file_id = 0,
                    Line_line = 42\<rparr>) = None"
    by (simp add: fileless_module_def)
  show ?thesis
    using func obj line no_file
      LookupAddress_unknown_file_id
        [OF func obj line no_file, where frame = "blank_frame ''m'' 0 0x1000"
           and frame_info = None]
    by (simp add: blank_frame_def fileless_module_def example_module_def)
qed

text \<open>
  C10.  For a frame whose module is registered, \<^verbatim>\<open>FillSourceLineInfo\<close> is the lookup in
  that module at the 64-bit difference of the instruction address and the module base.
  The difference wraps around: when the instruction address is below the module base,
  the address looked up is the instruction address plus \<open>2 ^ 64\<close> minus the base.
\<close>

theorem FillSourceLineInfo_relative_address_wraps:
  assumes "modules (frame_module_name frame) = Some m"
  shows "FillSourceLineInfo modules frame frame_info =
           LookupAddress m (instruction frame - module_base frame) frame frame_info \<and>
         unat (instruction frame - module_base frame) =
           (if unat (module_base frame) \<le> unat (instruction frame)
            then unat (instruction frame) - unat (module_base frame)
            else unat (instruction frame) + 2 ^ 64 - unat (module_base frame))"
  using assms by (simp add: FillSourceLineInfo_def unat_sub_if_size word_size)

theorem FillSourceLineInfo_relative_address_wraps_witness:
  "[''h'' \<mapsto> high_module] (frame_module_name (blank_frame ''h'' 0x20 0x10)) = Some high_module \<and>
   unat (instruction (blank_frame ''h'' 0x20 0x10)) <
     unat (module_base (blank_frame ''h'' 0x20 0x10)) \<and>
   instruction (blank_frame ''h'' 0x20 0x10) - module_base (blank_frame ''h'' 0x20 0x10) =
     0xFFFFFFFFFFFFFFF0 \<and>
   FillSourceLineInfo [''h'' \<mapsto> high_module] (blank_frame ''h'' 0x20 0x10) None =
     ((blank_frame ''h'' 0x20 0x10)\<lparr>function_name := ''top''\<rparr>, None)"
proof -
  have registered:
    "[''h'' \<mapsto> high_module] (frame_module_name (blank_frame ''h'' 0x20 0x10)) = Some high_module"
    by (simp add: blank_frame_def)
  have difference:
    "instruction (blank_frame ''h'' 0x20 0x10) - module_base (blank_frame ''h'' 0x20 0x10) =
       0xFFFFFFFFFFFFFFF0"
    by (simp add: blank_frame_def)
  have lookup:
    "LookupAddress high_module 0xFFFFFFFFFFFFFFF0 (blank_frame ''h'' 0x20 0x10) None =
       ((blank_frame ''h'' 0x20 0x10)\<lparr>function_name := ''top''\<rparr>, None)"
    by (simp add: LookupAddress_def high_module_def new_Module_def RangeMap_RetrieveRange_def
        range_contains_def deref_def)
  have below:
    "unat (instruction (blank_frame ''h'' 0x20 0x10)) <
       unat (module_base (blank_frame ''h'' 0x20 0x10))"
    by (simp add: blank_frame_def)
  have "FillSourceLineInfo [''h'' \<mapsto> high_module] (blank_frame ''h'' 0x20 0x10) None =
          LookupAddress high_module
            (instruction (blank_frame ''h'' 0x20 0x10) - module_base (blank_frame ''h'' 0x20 0x10))
            (blank_frame ''h'' 0x20 0x10) None"
    using registered
      FillSourceLineInfo_relative_address_wraps
        [where modules = "[''h'' \<mapsto> high_module]" and frame = "blank_frame ''h'' 0x20 0x10"
           and m = high_module and frame_info = None]
    by blast
  then have filled:
    "FillSourceLineInfo [''h'' \<mapsto> high_module] (blank_frame ''h'' 0x20 0x10) None =
       ((blank_frame ''h'' 0x20 0x10)\<lparr>function_name := ''top''\<rparr>, None)"
    by (simp only: difference lookup)
  from registered below difference filled show ?thesis
    by blast
qed

section \<open>Records that abort the load and records that do not\<close>













section \<open>Records that are dropped while the load goes on\<close>










section \<open>Tokenize against the tokenizing rule\<close>
























section \<open>FILE records\<close>



end
